theory Spec2Isabelle
  imports Complex_Main
begin

section \<open>Data model\<close>

text \<open>
  Instants (JavaScript \<open>Date\<close>, SQL timestamps) are epoch milliseconds. Counters are
  the store's integers. Floating-point statistics (averages, rates) are modelled as exact
  rationals. Optional TypeScript fields and nullable columns are \<open>option\<close>s. The store
  operations are modelled on their success path; the clock reading \<open>new Date()\<close> of one
  service call is one value \<open>now\<close> passed to the call, and the value \<open>uuidv4()\<close> would
  return is passed as \<open>uuid\<close>.
\<close>

type_synonym Date = int

record TrackingData =
  profileId :: string
  sessionId :: "string option"
  visitorIp :: "string option"
  userAgent :: "string option"
  referrer :: "string option"
  timestamp :: "Date option"

record LinkClickData = TrackingData +
  linkIndex :: int
  linkTitle :: "string option"
  linkUrl :: "string option"

record GeoData =
  country :: "string option"
  city :: "string option"
  region :: "string option"

record DeviceData =
  deviceType :: "string option"
  browser :: "string option"
  os :: "string option"

text \<open>Rows of the raw tables. A link click carries every column of a profile view.\<close>

record ProfileView =
  pv_id :: nat
  pv_profileId :: string
  pv_sessionId :: "string option"
  pv_visitorIp :: "string option"
  pv_userAgent :: "string option"
  pv_referrer :: "string option"
  pv_country :: "string option"
  pv_city :: "string option"
  pv_region :: "string option"
  pv_deviceType :: "string option"
  pv_browser :: "string option"
  pv_os :: "string option"
  pv_timestamp :: Date

record LinkClick = ProfileView +
  lc_linkIndex :: int
  lc_linkTitle :: "string option"
  lc_linkUrl :: "string option"

record Session =
  s_sessionId :: string
  s_profileId :: string
  s_visitorIp :: "string option"
  s_userAgent :: "string option"
  s_country :: "string option"
  s_city :: "string option"
  s_region :: "string option"
  s_deviceType :: "string option"
  s_browser :: "string option"
  s_os :: "string option"
  s_startTime :: Date
  s_endTime :: "Date option"
  s_duration :: "int option"
  s_pageViews :: int
  s_linkClicks :: int

text \<open>Rows of the five rollup tables.\<close>

record DailyStats =
  ds_profileId :: string
  ds_date :: Date
  ds_views :: int
  ds_uniqueViews :: int
  ds_clicks :: int
  ds_uniqueClicks :: int
  ds_sessions :: int
  ds_avgDuration :: "rat option"
  ds_bounceRate :: "rat option"

record LinkStats =
  ls_profileId :: string
  ls_linkIndex :: int
  ls_linkTitle :: string
  ls_linkUrl :: string
  ls_date :: Date
  ls_clicks :: int
  ls_uniqueClicks :: int
  ls_ctr :: "rat option"

record GeoStats =
  gs_profileId :: string
  gs_country :: string
  gs_city :: "string option"
  gs_region :: "string option"
  gs_date :: Date
  gs_views :: int
  gs_clicks :: int

record DeviceStats =
  dv_profileId :: string
  dv_deviceType :: string
  dv_browser :: "string option"
  dv_os :: "string option"
  dv_date :: Date
  dv_views :: int
  dv_clicks :: int

record ReferrerStats =
  rs_profileId :: string
  rs_referrer :: string
  rs_referrerType :: string
  rs_date :: Date
  rs_views :: int
  rs_clicks :: int

text \<open>
  Modelled from the spec: the Prisma schema is not among the sources. The raw tables and
  the session table are lists of rows. Each rollup table has the unique key the spec lists
  for it, which is the key every \<open>upsert\<close> and \<open>findUnique\<close> of the code addresses it by
  (\<open>profileId_date\<close>, \<open>profileId_linkIndex_date\<close>, \<open>profileId_country_city_date\<close>,
  \<open>profileId_deviceType_browser_os_date\<close>, \<open>profileId_referrer_date\<close>), so it is a map
  from that key to the row stored under it. A key column the code fills with \<open>x || ''\<close>
  holds the empty string for a null value, as the spec says of the primary key of
  DeviceStats, whatever the \<open>create\<close> object writes into the row.
\<close>

record store =
  profileViews :: "ProfileView list"
  linkClicks :: "LinkClick list"
  sessions :: "Session list"
  dailyStats :: "string \<times> Date \<rightharpoonup> DailyStats"
  linkStats :: "string \<times> int \<times> Date \<rightharpoonup> LinkStats"
  geoStats :: "string \<times> string \<times> string \<times> Date \<rightharpoonup> GeoStats"
  deviceStats :: "string \<times> string \<times> string \<times> string \<times> Date \<rightharpoonup> DeviceStats"
  referrerStats :: "string \<times> string \<times> Date \<rightharpoonup> ReferrerStats"
  nextId :: nat

definition empty_store :: store where
  "empty_store = \<lparr>profileViews = [], linkClicks = [], sessions = [],
     dailyStats = Map.empty, linkStats = Map.empty, geoStats = Map.empty,
     deviceStats = Map.empty, referrerStats = Map.empty, nextId = 0\<rparr>"

text \<open>JavaScript \<open>x || d\<close> on an optional string: \<open>undefined\<close>, \<open>null\<close> and \<open>''\<close> are falsy.\<close>

fun truthy :: "string option \<Rightarrow> bool" where
  "truthy None = False"
| "truthy (Some s) = (s \<noteq> [])"

definition or_else :: "string option \<Rightarrow> string \<Rightarrow> string" where
  "or_else x d = (if truthy x then the x else d)"

text \<open>
  Midnight of the day of an instant (\<open>setHours(0, 0, 0, 0)\<close>, moment's
  \<open>startOf('day')\<close>), with the process time zone taken to be UTC.
\<close>

definition dayMs :: int where
  "dayMs = 86400000"

definition startOfDay :: "Date \<Rightarrow> Date" where
  "startOfDay t = t - t mod dayMs"

section \<open>Enricher\<close>

text \<open>
  The two libraries the enricher calls, \<open>geoip.lookup\<close> and \<open>UAParser\<close>, are parameters.
  The parser result is the triple \<open>device.type\<close>, \<open>browser.name\<close>, \<open>os.name\<close>.
\<close>

record libs =
  geoip_lookup :: "string \<Rightarrow> GeoData option"
  ua_parser :: "string \<Rightarrow> string option \<times> string option \<times> string option"

definition no_geo :: GeoData where
  "no_geo = \<lparr>country = None, city = None, region = None\<rparr>"

definition no_device :: DeviceData where
  "no_device = \<lparr>deviceType = None, browser = None, os = None\<rparr>"

definition getGeoData :: "libs \<Rightarrow> string option \<Rightarrow> GeoData" where
  "getGeoData L ip =
     (if \<not> truthy ip then no_geo
      else case geoip_lookup L (the ip) of None \<Rightarrow> no_geo | Some geo \<Rightarrow> geo)"

definition getDeviceData :: "libs \<Rightarrow> string option \<Rightarrow> DeviceData" where
  "getDeviceData L ua =
     (if \<not> truthy ua then no_device
      else case ua_parser L (the ua) of (ty, bname, oname) \<Rightarrow>
        \<lparr>deviceType = Some (if ty = Some ''mobile'' then ''mobile''
                             else if ty = Some ''tablet'' then ''tablet'' else ''desktop''),
         browser = bname, os = oname\<rparr>)"

section \<open>Ingest (TrackingService)\<close>

datatype stat_type = TView | TClick

definition updateSession ::
  "Date \<Rightarrow> string \<Rightarrow> 'a TrackingData_scheme \<Rightarrow> GeoData \<Rightarrow> DeviceData \<Rightarrow> bool \<Rightarrow> store \<Rightarrow> store" where
  "updateSession now sid data geoData deviceData isClick st =
     (case find (\<lambda>s. s_sessionId s = sid) (sessions st) of
        Some existingSession \<Rightarrow>
          st\<lparr>sessions := map (\<lambda>s. if s_sessionId s = sid then
                 s\<lparr>s_endTime := Some now,
                   s_duration := Some ((now - s_startTime existingSession) div 1000),
                   s_pageViews := (if isClick then s_pageViews existingSession
                                   else s_pageViews existingSession + 1),
                   s_linkClicks := (if isClick then s_linkClicks existingSession + 1
                                    else s_linkClicks existingSession)\<rparr>
                 else s) (sessions st)\<rparr>
      | None \<Rightarrow>
          st\<lparr>sessions := sessions st @
            [\<lparr>s_sessionId = sid, s_profileId = profileId data,
              s_visitorIp = visitorIp data, s_userAgent = userAgent data,
              s_country = country geoData, s_city = city geoData, s_region = region geoData,
              s_deviceType = deviceType deviceData, s_browser = browser deviceData,
              s_os = os deviceData,
              s_startTime = now, s_endTime = None, s_duration = None,
              s_pageViews = (if isClick then 0 else 1),
              s_linkClicks = (if isClick then 1 else 0)\<rparr>]\<rparr>)"

definition updateDailyStats :: "Date \<Rightarrow> string \<Rightarrow> stat_type \<Rightarrow> store \<Rightarrow> store" where
  "updateDailyStats now pid ty st =
     (let today = startOfDay now in
      case dailyStats st (pid, today) of
        Some existingStats \<Rightarrow>
          st\<lparr>dailyStats := (dailyStats st)((pid, today) \<mapsto> existingStats
               \<lparr>ds_views := (if ty = TView then ds_views existingStats + 1
                              else ds_views existingStats),
                ds_clicks := (if ty = TClick then ds_clicks existingStats + 1
                               else ds_clicks existingStats)\<rparr>)\<rparr>
      | None \<Rightarrow>
          st\<lparr>dailyStats := (dailyStats st)((pid, today) \<mapsto>
               \<lparr>ds_profileId = pid, ds_date = today,
                ds_views = (if ty = TView then 1 else 0), ds_uniqueViews = 0,
                ds_clicks = (if ty = TClick then 1 else 0), ds_uniqueClicks = 0,
                ds_sessions = 0, ds_avgDuration = None, ds_bounceRate = None\<rparr>)\<rparr>)"

definition updateLinkStats :: "Date \<Rightarrow> string \<Rightarrow> int \<Rightarrow> string \<Rightarrow> string \<Rightarrow> store \<Rightarrow> store" where
  "updateLinkStats now pid idx title url st =
     (let today = startOfDay now in
      case linkStats st (pid, idx, today) of
        Some existingStats \<Rightarrow>
          st\<lparr>linkStats := (linkStats st)((pid, idx, today) \<mapsto>
               existingStats\<lparr>ls_clicks := ls_clicks existingStats + 1\<rparr>)\<rparr>
      | None \<Rightarrow>
          st\<lparr>linkStats := (linkStats st)((pid, idx, today) \<mapsto>
               \<lparr>ls_profileId = pid, ls_linkIndex = idx, ls_linkTitle = title,
                ls_linkUrl = url, ls_date = today, ls_clicks = 1, ls_uniqueClicks = 0,
                ls_ctr = None\<rparr>)\<rparr>)"

definition new_view ::
  "nat \<Rightarrow> Date \<Rightarrow> string \<Rightarrow> 'a TrackingData_scheme \<Rightarrow> GeoData \<Rightarrow> DeviceData \<Rightarrow> ProfileView" where
  "new_view i now sid data geoData deviceData =
     \<lparr>pv_id = i, pv_profileId = profileId data, pv_sessionId = Some sid,
      pv_visitorIp = visitorIp data, pv_userAgent = userAgent data,
      pv_referrer = referrer data,
      pv_country = country geoData, pv_city = city geoData, pv_region = region geoData,
      pv_deviceType = deviceType deviceData, pv_browser = browser deviceData,
      pv_os = os deviceData,
      pv_timestamp = (case timestamp data of Some t \<Rightarrow> t | None \<Rightarrow> now)\<rparr>"

definition trackProfileView :: "libs \<Rightarrow> Date \<Rightarrow> string \<Rightarrow> TrackingData \<Rightarrow> store \<Rightarrow> nat \<times> store" where
  "trackProfileView L now uuid data st =
     (let geoData = getGeoData L (visitorIp data);
          deviceData = getDeviceData L (userAgent data);
          sid = or_else (sessionId data) uuid;
          profileView = new_view (nextId st) now sid data geoData deviceData;
          st1 = st\<lparr>profileViews := profileViews st @ [profileView], nextId := nextId st + 1\<rparr>;
          st2 = updateSession now sid data geoData deviceData False st1;
          st3 = updateDailyStats now (profileId data) TView st2
      in (pv_id profileView, st3))"

definition trackLinkClick :: "libs \<Rightarrow> Date \<Rightarrow> string \<Rightarrow> LinkClickData \<Rightarrow> store \<Rightarrow> nat \<times> store" where
  "trackLinkClick L now uuid data st =
     (let geoData = getGeoData L (visitorIp data);
          deviceData = getDeviceData L (userAgent data);
          sid = or_else (sessionId data) uuid;
          linkClick = ProfileView.extend (new_view (nextId st) now sid data geoData deviceData)
             \<lparr>lc_linkIndex = linkIndex data, lc_linkTitle = linkTitle data,
              lc_linkUrl = linkUrl data\<rparr>;
          st1 = st\<lparr>linkClicks := linkClicks st @ [linkClick], nextId := nextId st + 1\<rparr>;
          st2 = updateSession now sid data geoData deviceData True st1;
          st3 = updateDailyStats now (profileId data) TClick st2;
          st4 = updateLinkStats now (profileId data) (linkIndex data)
                  (or_else (linkTitle data) '''') (or_else (linkUrl data) '''') st3
      in (pv_id linkClick, st4))"

text \<open>
  \<open>batchTrackViews\<close>: the events are enriched one by one and inserted with one
  \<open>createMany\<close>; \<open>uuids\<close> are the values the successive \<open>uuidv4()\<close> calls would return,
  one per event.
\<close>

fun processViews :: "libs \<Rightarrow> Date \<Rightarrow> nat \<Rightarrow> (string \<times> TrackingData) list \<Rightarrow> ProfileView list" where
  "processViews L now i [] = []"
| "processViews L now i ((uuid, view) # rest) =
     new_view i now (or_else (sessionId view) uuid) view
        (getGeoData L (visitorIp view)) (getDeviceData L (userAgent view))
     # processViews L now (i + 1) rest"

definition batchTrackViews :: "libs \<Rightarrow> Date \<Rightarrow> (string \<times> TrackingData) list \<Rightarrow> store \<Rightarrow> store" where
  "batchTrackViews L now views st =
     st\<lparr>profileViews := profileViews st @ processViews L now (nextId st) views,
        nextId := nextId st + length views\<rparr>"

text \<open>A sequence of tracking calls, executed one after the other.\<close>

datatype ingest_call =
  TrackView Date string TrackingData
| TrackClick Date string LinkClickData

fun ingest :: "libs \<Rightarrow> ingest_call \<Rightarrow> store \<Rightarrow> store" where
  "ingest L (TrackView now uuid data) st = snd (trackProfileView L now uuid data st)"
| "ingest L (TrackClick now uuid data) st = snd (trackLinkClick L now uuid data st)"

fun call_sessionId :: "ingest_call \<Rightarrow> string option" where
  "call_sessionId (TrackView now uuid data) = sessionId data"
| "call_sessionId (TrackClick now uuid data) = sessionId data"

fun is_view :: "ingest_call \<Rightarrow> bool" where
  "is_view (TrackView now uuid data) = True"
| "is_view (TrackClick now uuid data) = False"

definition session_counters :: "string \<Rightarrow> store \<Rightarrow> (int \<times> int) list" where
  "session_counters sid st =
     map (\<lambda>s. (s_pageViews s, s_linkClicks s)) (filter (\<lambda>s. s_sessionId s = sid) (sessions st))"

section \<open>Aggregator\<close>

text \<open>
  The closed day is \<open>[yesterday, today)\<close>, both computed from the clock reading of the run
  (\<open>moment().subtract(1, 'day').startOf('day')\<close> and \<open>moment().startOf('day')\<close>).
\<close>

definition yesterday_of :: "Date \<Rightarrow> Date" where
  "yesterday_of now = startOfDay (now - dayMs)"

definition today_of :: "Date \<Rightarrow> Date" where
  "today_of now = startOfDay now"

definition in_day :: "Date \<Rightarrow> Date \<Rightarrow> 'a ProfileView_scheme \<Rightarrow> bool" where
  "in_day yesterday today r = (yesterday \<le> pv_timestamp r \<and> pv_timestamp r < today)"

text \<open>
  Prisma's \<open>groupBy\<close> with \<open>_count\<close>: one entry per distinct value of the grouping
  columns, with the number of rows that have it. The code gives no \<open>orderBy\<close>; the model
  lists the groups in the order of their last row.
\<close>

definition groupBy :: "('r \<Rightarrow> 'k) \<Rightarrow> 'r list \<Rightarrow> ('k \<times> int) list" where
  "groupBy key rows =
     map (\<lambda>k. (k, int (length (filter (\<lambda>r. key r = k) rows)))) (remdups (map key rows))"

text \<open>\<open>groupBy({by: ['sessionId'], where: {sessionId: {not: null}}}).length\<close>\<close>

definition uniqueSessions :: "'a ProfileView_scheme list \<Rightarrow> int" where
  "uniqueSessions rows =
     int (length (groupBy pv_sessionId (filter (\<lambda>r. pv_sessionId r \<noteq> None) rows)))"

text \<open>
  Prisma's \<open>upsert\<close> on a table keyed by its unique key: the row found under the key of
  the \<open>where\<close> clause is updated, and the \<open>create\<close> row is stored under it when there is
  none.
\<close>

definition upsert :: "'k \<Rightarrow> 'r \<Rightarrow> ('r \<Rightarrow> 'r) \<Rightarrow> ('k \<rightharpoonup> 'r) \<Rightarrow> ('k \<rightharpoonup> 'r)" where
  "upsert k create update m =
     (case m k of None \<Rightarrow> m(k \<mapsto> create) | Some r \<Rightarrow> m(k \<mapsto> update r))"

text \<open>
  A rollup loop: for each group, in order, upsert under the group's key; \<open>row g\<close> is the
  \<open>create\<close> object and \<open>update (row g)\<close> writes the fields of the \<open>update\<close> object, which
  the code fills with the same computed values.
\<close>

definition upsertAll ::
  "('g \<Rightarrow> 'k) \<Rightarrow> ('g \<Rightarrow> 'r) \<Rightarrow> ('r \<Rightarrow> 'r \<Rightarrow> 'r) \<Rightarrow> 'g list \<Rightarrow> ('k \<rightharpoonup> 'r) \<Rightarrow> ('k \<rightharpoonup> 'r)" where
  "upsertAll key row update gs m = fold (\<lambda>g. upsert (key g) (row g) (update (row g))) gs m"

text \<open>\<open>_avg\<close> of a column: \<open>null\<close> over no rows.\<close>

definition average :: "int list \<Rightarrow> rat option" where
  "average xs = (if xs = [] then None else Some (of_int (sum_list xs) / of_int (int (length xs))))"

subsection \<open>DailyStats\<close>

definition dailyRow ::
  "Date \<Rightarrow> Date \<Rightarrow> ProfileView list \<Rightarrow> LinkClick list \<Rightarrow> Session list \<Rightarrow> string \<Rightarrow> DailyStats" where
  "dailyRow yesterday today views clicks sess pid =
     (let totalViews = int (length (filter (\<lambda>v. pv_profileId v = pid \<and> in_day yesterday today v) views));
          uniqueViews = uniqueSessions (filter (\<lambda>v. pv_profileId v = pid \<and> in_day yesterday today v) views);
          totalClicks = int (length (filter (\<lambda>c. pv_profileId c = pid \<and> in_day yesterday today c) clicks));
          uniqueClicks = uniqueSessions (filter (\<lambda>c. pv_profileId c = pid \<and> in_day yesterday today c) clicks);
          daySessions = filter (\<lambda>s. s_profileId s = pid \<and> yesterday \<le> s_startTime s \<and> s_startTime s < today) sess;
          totalSessions = int (length daySessions);
          avgDuration = average (map the (filter (\<lambda>d. d \<noteq> None) (map s_duration daySessions)));
          singlePageSessions = int (length (filter (\<lambda>s. s_pageViews s = 1) daySessions));
          bounceRate = (if totalSessions > 0
                        then (of_int singlePageSessions / of_int totalSessions) * 100 else 0)
      in \<lparr>ds_profileId = pid, ds_date = yesterday, ds_views = totalViews,
          ds_uniqueViews = uniqueViews, ds_clicks = totalClicks, ds_uniqueClicks = uniqueClicks,
          ds_sessions = totalSessions, ds_avgDuration = avgDuration,
          ds_bounceRate = Some bounceRate\<rparr>)"

definition dailyUpdate :: "DailyStats \<Rightarrow> DailyStats \<Rightarrow> DailyStats" where
  "dailyUpdate new r = r\<lparr>ds_views := ds_views new, ds_uniqueViews := ds_uniqueViews new,
     ds_clicks := ds_clicks new, ds_uniqueClicks := ds_uniqueClicks new,
     ds_sessions := ds_sessions new, ds_avgDuration := ds_avgDuration new,
     ds_bounceRate := ds_bounceRate new\<rparr>"

definition activeProfiles :: "Date \<Rightarrow> Date \<Rightarrow> ProfileView list \<Rightarrow> string list" where
  "activeProfiles yesterday today views =
     remdups (map pv_profileId (filter (in_day yesterday today) views))"

text \<open>
  Every loop body of the aggregator reads the raw tables and the session table only, and
  no pass writes them, so the rows are computed from the store the pass starts with.
\<close>

definition aggregateDailyStats :: "Date \<Rightarrow> store \<Rightarrow> store" where
  "aggregateDailyStats now st =
     (let yesterday = yesterday_of now; today = today_of now
      in st\<lparr>dailyStats := upsertAll (\<lambda>pid. (pid, yesterday))
            (dailyRow yesterday today (profileViews st) (linkClicks st) (sessions st))
            dailyUpdate (activeProfiles yesterday today (profileViews st)) (dailyStats st)\<rparr>)"

subsection \<open>LinkStats\<close>

type_synonym link_group = "(string \<times> int \<times> string option \<times> string option) \<times> int"

definition linkGroups :: "Date \<Rightarrow> Date \<Rightarrow> LinkClick list \<Rightarrow> link_group list" where
  "linkGroups yesterday today clicks =
     groupBy (\<lambda>c. (pv_profileId c, lc_linkIndex c, lc_linkTitle c, lc_linkUrl c))
       (filter (in_day yesterday today) clicks)"

definition linkRow ::
  "Date \<Rightarrow> Date \<Rightarrow> ProfileView list \<Rightarrow> LinkClick list \<Rightarrow> link_group \<Rightarrow> LinkStats" where
  "linkRow yesterday today views clicks linkGroup =
     (case linkGroup of ((pid, idx, title, url), cnt) \<Rightarrow>
      let uniqueClicks = uniqueSessions
            (filter (\<lambda>c. pv_profileId c = pid \<and> lc_linkIndex c = idx \<and> in_day yesterday today c) clicks);
          totalViews = int (length (filter (\<lambda>v. pv_profileId v = pid \<and> in_day yesterday today v) views));
          ctr = (if totalViews > 0 then (of_int cnt / of_int totalViews) * 100 else 0)
      in \<lparr>ls_profileId = pid, ls_linkIndex = idx, ls_linkTitle = or_else title ''Untitled'',
          ls_linkUrl = or_else url [], ls_date = yesterday, ls_clicks = cnt,
          ls_uniqueClicks = uniqueClicks, ls_ctr = Some ctr\<rparr>)"

definition linkUpdate :: "LinkStats \<Rightarrow> LinkStats \<Rightarrow> LinkStats" where
  "linkUpdate new r = r\<lparr>ls_linkTitle := ls_linkTitle new, ls_linkUrl := ls_linkUrl new,
     ls_clicks := ls_clicks new, ls_uniqueClicks := ls_uniqueClicks new, ls_ctr := ls_ctr new\<rparr>"

definition aggregateLinkStats :: "Date \<Rightarrow> store \<Rightarrow> store" where
  "aggregateLinkStats now st =
     (let yesterday = yesterday_of now; today = today_of now
      in st\<lparr>linkStats := upsertAll (\<lambda>((pid, idx, title, url), cnt). (pid, idx, yesterday))
            (linkRow yesterday today (profileViews st) (linkClicks st))
            linkUpdate (linkGroups yesterday today (linkClicks st)) (linkStats st)\<rparr>)"

subsection \<open>GeoStats, DeviceStats, ReferrerStats\<close>

text \<open>
  The click counts are looked up in a JavaScript \<open>Map\<close> whose keys are the group's columns
  joined with \<open>-\<close>; \<open>clicksMap.get(key) || 0\<close> is \<open>0\<close> for a missing key.
\<close>

definition clicksMap :: "('g \<Rightarrow> string) \<Rightarrow> ('g \<times> int) list \<Rightarrow> (string \<rightharpoonup> int)" where
  "clicksMap keyOf groups = fold (\<lambda>(g, cnt) m. m(keyOf g \<mapsto> cnt)) groups Map.empty"

definition get_or_zero :: "('k \<rightharpoonup> int) \<Rightarrow> 'k \<Rightarrow> int" where
  "get_or_zero m k = (case m k of None \<Rightarrow> 0 | Some n \<Rightarrow> n)"

definition str_or_empty :: "string option \<Rightarrow> string" where
  "str_or_empty x = or_else x []"

type_synonym geo_group = "string \<times> string option \<times> string option \<times> string option"

definition geoKey :: "geo_group \<Rightarrow> string" where
  "geoKey g = (case g of (pid, ctry, cty, reg) \<Rightarrow>
     pid @ ''-'' @ the ctry @ ''-'' @ str_or_empty cty @ ''-'' @ str_or_empty reg)"

definition geoGroups :: "Date \<Rightarrow> Date \<Rightarrow> 'a ProfileView_scheme list \<Rightarrow> (geo_group \<times> int) list" where
  "geoGroups yesterday today rows =
     groupBy (\<lambda>r. (pv_profileId r, pv_country r, pv_city r, pv_region r))
       (filter (\<lambda>r. in_day yesterday today r \<and> pv_country r \<noteq> None) rows)"

definition geoRow :: "Date \<Rightarrow> (string \<rightharpoonup> int) \<Rightarrow> geo_group \<times> int \<Rightarrow> GeoStats" where
  "geoRow yesterday cm geoView =
     (case geoView of ((pid, ctry, cty, reg), cnt) \<Rightarrow>
       \<lparr>gs_profileId = pid, gs_country = the ctry, gs_city = cty, gs_region = reg,
        gs_date = yesterday, gs_views = cnt,
        gs_clicks = get_or_zero cm (geoKey (pid, ctry, cty, reg))\<rparr>)"

definition geoUpdate :: "GeoStats \<Rightarrow> GeoStats \<Rightarrow> GeoStats" where
  "geoUpdate new r = r\<lparr>gs_views := gs_views new, gs_clicks := gs_clicks new\<rparr>"

definition aggregateGeoStats :: "Date \<Rightarrow> store \<Rightarrow> store" where
  "aggregateGeoStats now st =
     (let yesterday = yesterday_of now; today = today_of now;
          geoViews = geoGroups yesterday today (profileViews st);
          geoClicks = geoGroups yesterday today (linkClicks st)
      in st\<lparr>geoStats := upsertAll
            (\<lambda>((pid, ctry, cty, reg), cnt). (pid, the ctry, str_or_empty cty, yesterday))
            (geoRow yesterday (clicksMap geoKey geoClicks))
            geoUpdate geoViews (geoStats st)\<rparr>)"

type_synonym device_group = "string \<times> string option \<times> string option \<times> string option"

definition deviceKey :: "device_group \<Rightarrow> string" where
  "deviceKey g = (case g of (pid, ty, br, osn) \<Rightarrow>
     pid @ ''-'' @ the ty @ ''-'' @ str_or_empty br @ ''-'' @ str_or_empty osn)"

definition deviceGroups :: "Date \<Rightarrow> Date \<Rightarrow> 'a ProfileView_scheme list \<Rightarrow> (device_group \<times> int) list" where
  "deviceGroups yesterday today rows =
     groupBy (\<lambda>r. (pv_profileId r, pv_deviceType r, pv_browser r, pv_os r))
       (filter (\<lambda>r. in_day yesterday today r \<and> pv_deviceType r \<noteq> None) rows)"

definition deviceRow :: "Date \<Rightarrow> (string \<rightharpoonup> int) \<Rightarrow> device_group \<times> int \<Rightarrow> DeviceStats" where
  "deviceRow yesterday cm deviceView =
     (case deviceView of ((pid, ty, br, osn), cnt) \<Rightarrow>
       \<lparr>dv_profileId = pid, dv_deviceType = the ty, dv_browser = br, dv_os = osn,
        dv_date = yesterday, dv_views = cnt,
        dv_clicks = get_or_zero cm (deviceKey (pid, ty, br, osn))\<rparr>)"

definition deviceUpdate :: "DeviceStats \<Rightarrow> DeviceStats \<Rightarrow> DeviceStats" where
  "deviceUpdate new r = r\<lparr>dv_views := dv_views new, dv_clicks := dv_clicks new\<rparr>"

definition aggregateDeviceStats :: "Date \<Rightarrow> store \<Rightarrow> store" where
  "aggregateDeviceStats now st =
     (let yesterday = yesterday_of now; today = today_of now;
          deviceViews = deviceGroups yesterday today (profileViews st);
          deviceClicks = deviceGroups yesterday today (linkClicks st)
      in st\<lparr>deviceStats := upsertAll
            (\<lambda>((pid, ty, br, osn), cnt). (pid, the ty, str_or_empty br, str_or_empty osn, yesterday))
            (deviceRow yesterday (clicksMap deviceKey deviceClicks))
            deviceUpdate deviceViews (deviceStats st)\<rparr>)"

text \<open>
  \<open>toLowerCase\<close> on the bytes of the string: the ASCII letters are lowered, every other
  byte is kept.
\<close>

definition lower_char :: "char \<Rightarrow> char" where
  "lower_char c =
     (let n = (of_char c :: nat) in if 65 \<le> n \<and> n \<le> 90 then char_of (n + 32) else c)"

definition toLowerCase :: "string \<Rightarrow> string" where
  "toLowerCase s = map lower_char s"

text \<open>\<open>s.includes(t)\<close>\<close>

fun str_includes :: "string \<Rightarrow> string \<Rightarrow> bool" where
  "str_includes [] t = (t = [])"
| "str_includes (c # s) t = (take (length t) (c # s) = t \<or> str_includes s t)"

definition referrerTypeOf :: "string \<Rightarrow> string" where
  "referrerTypeOf raw =
     (let referrer = toLowerCase raw in
      if str_includes referrer ''google'' \<or> str_includes referrer ''bing'' \<or> str_includes referrer ''yahoo''
      then ''search''
      else if str_includes referrer ''facebook'' \<or> str_includes referrer ''twitter''
              \<or> str_includes referrer ''instagram'' \<or> str_includes referrer ''linkedin''
      then ''social''
      else if referrer = [] \<or> referrer = ''direct'' then ''direct''
      else ''other'')"

type_synonym referrer_group = "string \<times> string option"

definition referrerKey :: "referrer_group \<Rightarrow> string" where
  "referrerKey g = (case g of (pid, ref) \<Rightarrow> pid @ ''-'' @ the ref)"

definition referrerGroups :: "Date \<Rightarrow> Date \<Rightarrow> 'a ProfileView_scheme list \<Rightarrow> (referrer_group \<times> int) list" where
  "referrerGroups yesterday today rows =
     groupBy (\<lambda>r. (pv_profileId r, pv_referrer r))
       (filter (\<lambda>r. in_day yesterday today r \<and> pv_referrer r \<noteq> None) rows)"

definition referrerRow :: "Date \<Rightarrow> (string \<rightharpoonup> int) \<Rightarrow> referrer_group \<times> int \<Rightarrow> ReferrerStats" where
  "referrerRow yesterday cm referrerView =
     (case referrerView of ((pid, ref), cnt) \<Rightarrow>
       \<lparr>rs_profileId = pid, rs_referrer = the ref, rs_referrerType = referrerTypeOf (the ref),
        rs_date = yesterday, rs_views = cnt,
        rs_clicks = get_or_zero cm (referrerKey (pid, ref))\<rparr>)"

definition referrerUpdate :: "ReferrerStats \<Rightarrow> ReferrerStats \<Rightarrow> ReferrerStats" where
  "referrerUpdate new r = r\<lparr>rs_referrerType := rs_referrerType new, rs_views := rs_views new,
     rs_clicks := rs_clicks new\<rparr>"

definition aggregateReferrerStats :: "Date \<Rightarrow> store \<Rightarrow> store" where
  "aggregateReferrerStats now st =
     (let yesterday = yesterday_of now; today = today_of now;
          referrerViews = referrerGroups yesterday today (profileViews st);
          referrerClicks = referrerGroups yesterday today (linkClicks st)
      in st\<lparr>referrerStats := upsertAll
            (\<lambda>((pid, ref), cnt). (pid, the ref, yesterday))
            (referrerRow yesterday (clicksMap referrerKey referrerClicks))
            referrerUpdate referrerViews (referrerStats st)\<rparr>)"

text \<open>
  \<open>runAllAggregations\<close> starts the five passes together; they write five different
  tables and read none of them, so any order of the passes gives the same store.
\<close>

definition runAllAggregations :: "Date \<Rightarrow> store \<Rightarrow> store" where
  "runAllAggregations now st =
     aggregateReferrerStats now (aggregateDeviceStats now (aggregateGeoStats now
       (aggregateLinkStats now (aggregateDailyStats now st))))"

section \<open>Calendar\<close>

text \<open>
  PostgreSQL's \<open>DATE_TRUNC\<close> and moment's \<open>format\<close> are library functions. They are
  modelled on the proleptic Gregorian calendar in UTC (database session and process time
  zone), for the four periods and the four formats the service uses and years 0 to 9999.
\<close>

definition civil_from_days :: "int \<Rightarrow> int \<times> int \<times> int" where
  "civil_from_days z =
     (let z' = z + 719468;
          era = z' div 146097;
          doe = z' - era * 146097;
          yoe = (doe - doe div 1460 + doe div 36524 - doe div 146096) div 365;
          doy = doe - (365 * yoe + yoe div 4 - yoe div 100);
          mp = (5 * doy + 2) div 153;
          d = doy - (153 * mp + 2) div 5 + 1;
          m = (if mp < 10 then mp + 3 else mp - 9);
          y = yoe + era * 400
      in (if m \<le> 2 then y + 1 else y, m, d))"

definition days_from_civil :: "int \<Rightarrow> int \<Rightarrow> int \<Rightarrow> int" where
  "days_from_civil y m d =
     (let y' = (if m \<le> 2 then y - 1 else y);
          era = y' div 400;
          yoe = y' - era * 400;
          doy = (153 * (if m > 2 then m - 3 else m + 9) + 2) div 5 + d - 1;
          doe = yoe * 365 + yoe div 4 - yoe div 100 + doy
      in era * 146097 + doe - 719468)"

datatype period = Hour | Day | Week | Month

definition dateTrunc :: "period \<Rightarrow> Date \<Rightarrow> Date" where
  "dateTrunc p t =
     (case p of
        Hour \<Rightarrow> t - t mod 3600000
      | Day \<Rightarrow> t - t mod dayMs
      | Week \<Rightarrow> (let d = t div dayMs in (d - (d + 3) mod 7) * dayMs)
      | Month \<Rightarrow> (case civil_from_days (t div dayMs) of (y, m, d) \<Rightarrow>
                    days_from_civil y m 1 * dayMs))"

definition digit :: "int \<Rightarrow> char" where
  "digit n = char_of (48 + nat n)"

definition pad2 :: "int \<Rightarrow> string" where
  "pad2 n = [digit (n div 10 mod 10), digit (n mod 10)]"

definition pad4 :: "int \<Rightarrow> string" where
  "pad4 n = [digit (n div 1000 mod 10), digit (n div 100 mod 10), digit (n div 10 mod 10),
             digit (n mod 10)]"

definition weeksInYear :: "int \<Rightarrow> int" where
  "weeksInYear y =
     (let p = (\<lambda>y. (y + y div 4 - y div 100 + y div 400) mod 7)
      in if p y = 4 \<or> p (y - 1) = 3 then 53 else 52)"

definition isoWeek :: "Date \<Rightarrow> int" where
  "isoWeek t =
     (let days = t div dayMs;
          y = fst (civil_from_days days);
          ordinal = days - days_from_civil y 1 1 + 1;
          weekday = (days + 3) mod 7 + 1;
          w = (ordinal - weekday + 10) div 7
      in if w < 1 then weeksInYear (y - 1)
         else if w > weeksInYear y then 1 else w)"

definition momentFormat :: "string \<Rightarrow> Date \<Rightarrow> string" where
  "momentFormat f t =
     (case civil_from_days (t div dayMs) of (y, m, d) \<Rightarrow>
        if f = ''YYYY-MM-DD HH:00''
        then pad4 y @ ''-'' @ pad2 m @ ''-'' @ pad2 d @ '' '' @ pad2 (t mod dayMs div 3600000) @ '':00''
        else if f = ''YYYY-MM-DD'' then pad4 y @ ''-'' @ pad2 m @ ''-'' @ pad2 d
        else if f = ''YYYY-[W]WW'' then pad4 y @ ''-W'' @ pad2 (isoWeek t)
        else if f = ''YYYY-MM'' then pad4 y @ ''-'' @ pad2 m
        else f)"

text \<open>Decimal rendering of a number in a template literal.\<close>

fun digits :: "nat \<Rightarrow> string" where
  "digits n = (if n < 10 then [digit (int n)] else digits (n div 10) @ [digit (int (n mod 10))])"

definition show_int :: "int \<Rightarrow> string" where
  "show_int i = (if i < 0 then ''-'' @ digits (nat (- i)) else digits (nat i))"

section \<open>Cache (CacheService)\<close>

datatype error = RedisError | RpcError

section \<open>Query (AnalyticsService)\<close>

record TimeRange =
  tr_start :: Date
  tr_end :: Date
  tr_period :: period

type_synonym series_point = "string \<times> int \<times> int"
type_synonym link_perf = "string \<times> string \<times> int \<times> int \<times> rat"

record AnalyticsData =
  r_profileViews :: int
  r_uniqueViews :: int
  r_totalClicks :: int
  r_uniqueClicks :: int
  r_totalLinks :: int
  r_averageClicksPerLink :: rat
  r_topLink :: "(string \<times> string \<times> int) option"
  r_timeSeriesData :: "series_point list"
  r_geographicData :: "series_point list"
  r_deviceData :: "series_point list"
  r_referrerData :: "series_point list"
  r_linkPerformance :: "link_perf list"

text \<open>
  The Redis client. An entry holds the serialised report and the instant it expires at,
  if any; \<open>JSON.parse (JSON.stringify report)\<close> is the report. \<open>get_fails\<close> and
  \<open>set_fails\<close> say whether the client raises on a read and on a write.
\<close>

record cache =
  entries :: "string \<rightharpoonup> AnalyticsData \<times> Date option"
  get_fails :: bool
  set_fails :: bool

definition cache_get :: "Date \<Rightarrow> string \<Rightarrow> cache \<Rightarrow> AnalyticsData option" where
  "cache_get now key c =
     (if get_fails c then None
      else case entries c key of
             None \<Rightarrow> None
           | Some (v, None) \<Rightarrow> Some v
           | Some (v, Some expires) \<Rightarrow> if now < expires then Some v else None)"

definition cache_set :: "Date \<Rightarrow> string \<Rightarrow> AnalyticsData \<Rightarrow> int \<Rightarrow> cache \<Rightarrow> error + cache" where
  "cache_set now key v ttl c =
     (if set_fails c then Inl RedisError
      else if ttl \<noteq> 0
      then (if ttl < 0 then Inl RedisError
            else Inr (c\<lparr>entries := (entries c)(key \<mapsto> (v, Some (now + ttl * 1000)))\<rparr>))
      else Inr (c\<lparr>entries := (entries c)(key \<mapsto> (v, None))\<rparr>))"

definition in_range :: "TimeRange \<Rightarrow> 'a ProfileView_scheme \<Rightarrow> bool" where
  "in_range tr r = (tr_start tr \<le> pv_timestamp r \<and> pv_timestamp r \<le> tr_end tr)"

definition rangeRows :: "string \<Rightarrow> TimeRange \<Rightarrow> 'a ProfileView_scheme list \<Rightarrow> 'a ProfileView_scheme list" where
  "rangeRows pid tr rows = filter (\<lambda>r. pv_profileId r = pid \<and> in_range tr r) rows"

definition getViewStats :: "string \<Rightarrow> TimeRange \<Rightarrow> ProfileView list \<Rightarrow> int \<times> int" where
  "getViewStats pid tr views =
     (int (length (rangeRows pid tr views)), uniqueSessions (rangeRows pid tr views))"

definition getClickStats :: "string \<Rightarrow> TimeRange \<Rightarrow> LinkClick list \<Rightarrow> int \<times> int" where
  "getClickStats pid tr clicks =
     (int (length (rangeRows pid tr clicks)), uniqueSessions (rangeRows pid tr clicks))"

definition getDateFormat :: "period \<Rightarrow> string" where
  "getDateFormat p =
     (case p of Hour \<Rightarrow> ''YYYY-MM-DD HH:00'' | Day \<Rightarrow> ''YYYY-MM-DD''
      | Week \<Rightarrow> ''YYYY-[W]WW'' | Month \<Rightarrow> ''YYYY-MM'')"

text \<open>
  \<open>SELECT DATE_TRUNC(period, timestamp) AS date, COUNT(*) ... GROUP BY ... ORDER BY date\<close>
\<close>

definition truncCounts :: "period \<Rightarrow> 'a ProfileView_scheme list \<Rightarrow> (Date \<times> int) list" where
  "truncCounts p rows =
     map (\<lambda>b. (b, int (length (filter (\<lambda>r. dateTrunc p (pv_timestamp r) = b) rows))))
       (sort (remdups (map (\<lambda>r. dateTrunc p (pv_timestamp r)) rows)))"

text \<open>
  A JavaScript \<open>Map\<close> keeps its keys in insertion order: \<open>set\<close> on a key it has replaces
  the value in place, \<open>set\<close> on a new key appends the entry.
\<close>

fun map_set :: "'k \<Rightarrow> 'v \<Rightarrow> ('k \<times> 'v) list \<Rightarrow> ('k \<times> 'v) list" where
  "map_set k v [] = [(k, v)]"
| "map_set k v ((k', v') # m) = (if k' = k then (k, v) # m else (k', v') # map_set k v m)"

definition mergeSeries :: "string \<Rightarrow> (Date \<times> int) list \<Rightarrow> (Date \<times> int) list \<Rightarrow> series_point list" where
  "mergeSeries format viewData clickData =
     (let dataMap1 = fold (\<lambda>(date, views) dataMap.
            map_set (momentFormat format date) (views, 0) dataMap) viewData [];
          dataMap2 = fold (\<lambda>(date, clicks) dataMap.
            let dateStr = momentFormat format date;
                existing = (case map_of dataMap dateStr of None \<Rightarrow> (0, 0) | Some e \<Rightarrow> e)
            in map_set dateStr (fst existing, clicks) dataMap) clickData dataMap1
      in map (\<lambda>(date, views, clicks). (date, views, clicks)) dataMap2)"

definition getTimeSeriesData ::
  "string \<Rightarrow> TimeRange \<Rightarrow> ProfileView list \<Rightarrow> LinkClick list \<Rightarrow> series_point list" where
  "getTimeSeriesData pid tr views clicks =
     mergeSeries (getDateFormat (tr_period tr))
       (truncCounts (tr_period tr) (rangeRows pid tr views))
       (truncCounts (tr_period tr) (rangeRows pid tr clicks))"

text \<open>\<open>orderBy: {_count: {id: 'desc'}}\<close>, ties in the order of the groups.\<close>

definition byCountDesc :: "('k \<times> int) list \<Rightarrow> ('k \<times> int) list" where
  "byCountDesc groups = sort_key (\<lambda>(k, n). - n) groups"

definition dimensionData ::
  "('k \<times> int) list \<Rightarrow> ('k \<times> int) list \<Rightarrow> ('k \<Rightarrow> string) \<Rightarrow> series_point list" where
  "dimensionData viewData clickData render =
     map (\<lambda>(k, n). (render k, n, get_or_zero (map_of clickData) k)) viewData"

definition getGeographicData ::
  "string \<Rightarrow> TimeRange \<Rightarrow> ProfileView list \<Rightarrow> LinkClick list \<Rightarrow> series_point list" where
  "getGeographicData pid tr views clicks =
     dimensionData
       (take 10 (byCountDesc (groupBy pv_country
          (filter (\<lambda>r. pv_country r \<noteq> None) (rangeRows pid tr views)))))
       (groupBy pv_country (filter (\<lambda>r. pv_country r \<noteq> None) (rangeRows pid tr clicks)))
       the"

definition getDeviceData_report ::
  "string \<Rightarrow> TimeRange \<Rightarrow> ProfileView list \<Rightarrow> LinkClick list \<Rightarrow> series_point list" where
  "getDeviceData_report pid tr views clicks =
     dimensionData
       (groupBy pv_deviceType (filter (\<lambda>r. pv_deviceType r \<noteq> None) (rangeRows pid tr views)))
       (groupBy pv_deviceType (filter (\<lambda>r. pv_deviceType r \<noteq> None) (rangeRows pid tr clicks)))
       the"

text \<open>
  \<open>new URL(referrer).hostname\<close>: the URL parser is a parameter, \<open>None\<close> where the
  constructor throws.
\<close>

definition cleanReferrer :: "(string \<Rightarrow> string option) \<Rightarrow> string \<Rightarrow> string" where
  "cleanReferrer url_hostname ref = (case url_hostname ref of Some host \<Rightarrow> host | None \<Rightarrow> ref)"

definition getReferrerData ::
  "(string \<Rightarrow> string option) \<Rightarrow> string \<Rightarrow> TimeRange \<Rightarrow> ProfileView list \<Rightarrow> LinkClick list
     \<Rightarrow> series_point list" where
  "getReferrerData url_hostname pid tr views clicks =
     dimensionData
       (take 10 (byCountDesc (groupBy pv_referrer
          (filter (\<lambda>r. pv_referrer r \<noteq> None) (rangeRows pid tr views)))))
       (groupBy pv_referrer (filter (\<lambda>r. pv_referrer r \<noteq> None) (rangeRows pid tr clicks)))
       (\<lambda>ref. cleanReferrer url_hostname (the ref))"

definition getLinkPerformance ::
  "string \<Rightarrow> TimeRange \<Rightarrow> ProfileView list \<Rightarrow> LinkClick list \<Rightarrow> link_perf list" where
  "getLinkPerformance pid tr views clicks =
     (let linkData = byCountDesc (groupBy (\<lambda>c. (lc_linkIndex c, lc_linkTitle c, lc_linkUrl c))
            (rangeRows pid tr clicks));
          totalViews = int (length (rangeRows pid tr views))
      in map (\<lambda>((idx, title, url), cnt).
            (or_else title ''Untitled'', or_else url [], cnt,
             uniqueSessions (filter (\<lambda>c. lc_linkIndex c = idx) (rangeRows pid tr clicks)),
             if totalViews > 0 then (of_int cnt / of_int totalViews) * 100 else 0)) linkData)"

definition link_clicks :: "link_perf \<Rightarrow> int" where
  "link_clicks link = fst (snd (snd link))"

definition generateAnalytics ::
  "(string \<Rightarrow> string option) \<Rightarrow> string \<Rightarrow> TimeRange \<Rightarrow> store \<Rightarrow> AnalyticsData" where
  "generateAnalytics url_hostname pid tr st =
     (let viewStats = getViewStats pid tr (profileViews st);
          clickStats = getClickStats pid tr (linkClicks st);
          linkPerformance = getLinkPerformance pid tr (profileViews st) (linkClicks st);
          totalClicks = fst clickStats;
          totalLinks = int (length linkPerformance);
          topLink = (case linkPerformance of [] \<Rightarrow> None
             | first # rest \<Rightarrow> Some (fold (\<lambda>link mx.
                  if link_clicks link > link_clicks mx then link else mx) rest first))
      in \<lparr>r_profileViews = fst viewStats, r_uniqueViews = snd viewStats,
          r_totalClicks = totalClicks, r_uniqueClicks = snd clickStats,
          r_totalLinks = totalLinks,
          r_averageClicksPerLink =
            (if totalLinks > 0 then of_int totalClicks / of_int totalLinks else 0),
          r_topLink = map_option (\<lambda>(title, url, cnt, u, ctr). (title, url, cnt)) topLink,
          r_timeSeriesData = getTimeSeriesData pid tr (profileViews st) (linkClicks st),
          r_geographicData = getGeographicData pid tr (profileViews st) (linkClicks st),
          r_deviceData = getDeviceData_report pid tr (profileViews st) (linkClicks st),
          r_referrerData = getReferrerData url_hostname pid tr (profileViews st) (linkClicks st),
          r_linkPerformance = linkPerformance\<rparr>)"

definition cacheKey :: "string \<Rightarrow> TimeRange \<Rightarrow> string" where
  "cacheKey pid tr =
     ''analytics:'' @ pid @ '':'' @ show_int (tr_start tr) @ '':'' @ show_int (tr_end tr)"

text \<open>
  \<open>getProfileAnalytics\<close> returns the report or the error it throws, and the cache it
  leaves. \<open>cacheTtl\<close> is \<open>config.analytics.cacheTtl\<close>, in seconds.
\<close>

definition getProfileAnalytics ::
  "(string \<Rightarrow> string option) \<Rightarrow> int \<Rightarrow> Date \<Rightarrow> string \<Rightarrow> TimeRange \<Rightarrow> store \<Rightarrow> cache
     \<Rightarrow> (error + AnalyticsData) \<times> cache" where
  "getProfileAnalytics url_hostname cacheTtl now pid tr st c =
     (case cache_get now (cacheKey pid tr) c of
        Some cached \<Rightarrow> (Inr cached, c)
      | None \<Rightarrow>
          (let analyticsData = generateAnalytics url_hostname pid tr st
           in case cache_set now (cacheKey pid tr) analyticsData cacheTtl c of
                Inl e \<Rightarrow> (Inl e, c)
              | Inr c' \<Rightarrow> (Inr analyticsData, c')))"



section \<open>Chain adapter (SuiService) and the tracking routes\<close>




text \<open>
  The answers of a route: the tracked id with the request's \<open>sessionId\<close>, a validation
  error, an unknown profile, or the answer to an error the handler caught.
\<close>

datatype response =
  Json200 nat "string option"
| Status400
| Status404 string
| Status500



section \<open>Concrete inputs and the spec's own wording\<close>

text \<open>Concrete inputs used to evaluate the model.\<close>

definition no_libs :: libs where
  "no_libs = \<lparr>geoip_lookup = (\<lambda>ip. None), ua_parser = (\<lambda>ua. (None, None, None))\<rparr>"

definition view_of :: "string \<Rightarrow> string option \<Rightarrow> TrackingData" where
  "view_of pid sid = \<lparr>profileId = pid, sessionId = sid, visitorIp = None, userAgent = None,
     referrer = None, timestamp = None\<rparr>"

definition click_of :: "string \<Rightarrow> string option \<Rightarrow> LinkClickData" where
  "click_of pid sid = \<lparr>profileId = pid, sessionId = sid, visitorIp = None, userAgent = None,
     referrer = None, timestamp = None, linkIndex = 0, linkTitle = None, linkUrl = None\<rparr>"

text \<open>
  What the upserts of one rollup loop do to the row under one key: the first upsert on a
  missing row creates it, every other one updates it.
\<close>

definition apply_key :: "('g \<Rightarrow> 'r) \<Rightarrow> ('r \<Rightarrow> 'r \<Rightarrow> 'r) \<Rightarrow> 'g list \<Rightarrow> 'r option \<Rightarrow> 'r option" where
  "apply_key row update gs r =
     fold (\<lambda>g r. Some (case r of None \<Rightarrow> row g | Some x \<Rightarrow> update (row g) x)) gs r"

text \<open>The fields of a DailyStats row that scenario 3 of the spec lists.\<close>

definition daily_fields :: "DailyStats \<Rightarrow> int \<times> int \<times> int \<times> int \<times> int \<times> rat option" where
  "daily_fields r = (ds_views r, ds_uniqueViews r, ds_clicks r, ds_uniqueClicks r, ds_sessions r,
     ds_bounceRate r)"

text \<open>
  Scenario 3: for profile \<open>P1\<close> on the closed day, ten views all under session \<open>S1\<close>,
  three clicks all under session \<open>S2\<close>, and the two sessions, started that day, with the
  counters Ingest keeps for them.
\<close>

definition scenario3 :: "Date \<Rightarrow> store \<Rightarrow> bool" where
  "scenario3 now st =
     (let yesterday = yesterday_of now; today = today_of now;
          vs = filter (\<lambda>v. pv_profileId v = ''P1'' \<and> in_day yesterday today v) (profileViews st);
          cs = filter (\<lambda>c. pv_profileId c = ''P1'' \<and> in_day yesterday today c) (linkClicks st);
          ds = filter (\<lambda>s. s_profileId s = ''P1'' \<and> yesterday \<le> s_startTime s
                  \<and> s_startTime s < today) (sessions st)
      in map pv_sessionId vs = replicate 10 (Some ''S1'') \<and>
         map pv_sessionId cs = replicate 3 (Some ''S2'') \<and>
         map (\<lambda>s. (s_sessionId s, s_pageViews s, s_linkClicks s)) ds \<in>
           set [[(''S1'', 10, 0), (''S2'', 0, 3)], [(''S2'', 0, 3), (''S1'', 10, 0)]])"

text \<open>The store Ingest builds for scenario 3, on 2024-01-01 (UTC).\<close>

definition scenario_calls :: "ingest_call list" where
  "scenario_calls =
     replicate 10 (TrackView 1704100000000 ''11111111-1111-4111-8111-111111111111''
        (view_of ''P1'' (Some ''S1''))) @
     replicate 3 (TrackClick 1704103600000 ''22222222-2222-4222-8222-222222222222''
        (click_of ''P1'' (Some ''S2'')))"

definition scenario_store :: store where
  "scenario_store = fold (ingest no_libs) scenario_calls empty_store"











text \<open>
  Three views of \<open>P1\<close> on 2024-01-01 from one city that the geo table files under two
  regions, sent by a client whose user agent names no browser.
\<close>

definition region_libs :: libs where
  "region_libs = \<lparr>geoip_lookup = (\<lambda>ip.
       if ip = ''192.0.2.1''
       then Some \<lparr>country = Some ''US'', city = Some ''Springfield'', region = Some ''IL''\<rparr>
       else if ip = ''192.0.2.2''
       then Some \<lparr>country = Some ''US'', city = Some ''Springfield'', region = Some ''MA''\<rparr>
       else None),
     ua_parser = (\<lambda>ua. (None, None, None))\<rparr>"

definition region_view :: "string \<Rightarrow> TrackingData" where
  "region_view ip = (view_of ''P1'' (Some ''S1''))\<lparr>visitorIp := Some ip, userAgent := Some ''curl/8.0''\<rparr>"

definition region_store :: store where
  "region_store = fold (ingest region_libs)
     [TrackView 1704100000000 ''99999999-9999-4999-8999-999999999999'' (region_view ''192.0.2.1''),
      TrackView 1704100001000 ''99999999-9999-4999-8999-999999999999'' (region_view ''192.0.2.2''),
      TrackView 1704100002000 ''99999999-9999-4999-8999-999999999999'' (region_view ''192.0.2.2'')]
     empty_store"

section \<open>Session stitching\<close>

lemma find_filter: "find P xs = (case filter P xs of [] \<Rightarrow> None | x # _ \<Rightarrow> Some x)"
  by (induction xs) auto

lemma filter_singleton_holds: "filter P xs = [z] \<Longrightarrow> P z"
  by (metis filter_eq_ConsD)

lemma filter_map_preserving:
  "(\<And>x. P (f x) = P x) \<Longrightarrow> filter P (map f xs) = map f (filter P xs)"
  by (induction xs) auto

lemma sessions_updateDailyStats [simp]: "sessions (updateDailyStats now pid ty st) = sessions st"
  by (simp add: updateDailyStats_def Let_def split: option.splits)

lemma sessions_updateLinkStats [simp]: "sessions (updateLinkStats now pid idx t u st) = sessions st"
  by (simp add: updateLinkStats_def Let_def split: option.splits)

lemma session_counters_updateSession_new:
  assumes "session_counters sid st = []"
  shows "session_counters sid (updateSession now sid data g d isClick st) =
     [(if isClick then 0 else 1, if isClick then 1 else 0)]"
proof -
  from assms have none: "filter (\<lambda>s. s_sessionId s = sid) (sessions st) = []"
    by (simp add: session_counters_def)
  then have "find (\<lambda>s. s_sessionId s = sid) (sessions st) = None"
    by (simp add: find_filter)
  then obtain row where sess: "sessions (updateSession now sid data g d isClick st) = sessions st @ [row]"
    and row: "s_sessionId row = sid" "s_pageViews row = (if isClick then 0 else 1)"
      "s_linkClicks row = (if isClick then 1 else 0)"
    by (simp add: updateSession_def)
  show ?thesis
    by (simp add: session_counters_def sess none row)
qed

lemma session_counters_updateSession_old:
  assumes "session_counters sid st = [(p, l)]"
  shows "session_counters sid (updateSession now sid data g d isClick st) =
     [(if isClick then p else p + 1, if isClick then l + 1 else l)]"
proof -
  from assms obtain z where z: "filter (\<lambda>s. s_sessionId s = sid) (sessions st) = [z]"
    and pl: "s_pageViews z = p" "s_linkClicks z = l"
    by (auto simp: session_counters_def map_eq_Cons_conv)
  from z have zsid: "s_sessionId z = sid"
    by (rule filter_singleton_holds)
  from z have found: "find (\<lambda>s. s_sessionId s = sid) (sessions st) = Some z"
    by (simp add: find_filter)
  define upd where "upd = (\<lambda>s::Session. s\<lparr>s_endTime := Some now,
      s_duration := Some ((now - s_startTime z) div 1000),
      s_pageViews := (if isClick then s_pageViews z else s_pageViews z + 1),
      s_linkClicks := (if isClick then s_linkClicks z + 1 else s_linkClicks z)\<rparr>)"
  have sess: "sessions (updateSession now sid data g d isClick st) =
      map (\<lambda>s. if s_sessionId s = sid then upd s else s) (sessions st)"
    using found by (simp add: updateSession_def upd_def)
  have upd: "\<And>s. s_sessionId (upd s) = s_sessionId s"
      "\<And>s. s_pageViews (upd s) = (if isClick then p else p + 1)"
      "\<And>s. s_linkClicks (upd s) = (if isClick then l + 1 else l)"
    using pl by (simp_all add: upd_def)
  have "filter (\<lambda>s. s_sessionId s = sid)
          (map (\<lambda>s. if s_sessionId s = sid then upd s else s) (sessions st)) =
        map (\<lambda>s. if s_sessionId s = sid then upd s else s)
          (filter (\<lambda>s. s_sessionId s = sid) (sessions st))"
    by (rule filter_map_preserving) (simp add: upd)
  then show ?thesis
    by (simp add: session_counters_def sess z zsid upd)
qed


lemma or_else_Some [simp]: "s \<noteq> [] \<Longrightarrow> or_else (Some s) d = s"
  by (simp add: or_else_def)

lemma session_counters_cong: "sessions a = sessions b \<Longrightarrow> session_counters sid a = session_counters sid b"
  by (simp add: session_counters_def)

lemma session_counters_updateDailyStats [simp]:
  "session_counters sid (updateDailyStats now pid ty st) = session_counters sid st"
  by (rule session_counters_cong) simp

lemma session_counters_updateLinkStats [simp]:
  "session_counters sid (updateLinkStats now pid idx t u st) = session_counters sid st"
  by (rule session_counters_cong) simp

lemma session_counters_raw [simp]:
  "session_counters sid (st\<lparr>profileViews := vs, nextId := n\<rparr>) = session_counters sid st"
  "session_counters sid (st\<lparr>linkClicks := cs, nextId := n\<rparr>) = session_counters sid st"
  by (simp_all add: session_counters_def)

lemma session_counters_ingest_new:
  "call_sessionId c = Some sid \<Longrightarrow> sid \<noteq> [] \<Longrightarrow> session_counters sid st = [] \<Longrightarrow>
   session_counters sid (ingest L c st) = [(if is_view c then 1 else 0, if is_view c then 0 else 1)]"
  by (cases c)
    (simp_all add: trackProfileView_def trackLinkClick_def Let_def
      session_counters_updateSession_new)

lemma session_counters_ingest_old:
  "call_sessionId c = Some sid \<Longrightarrow> sid \<noteq> [] \<Longrightarrow> session_counters sid st = [(p, l)] \<Longrightarrow>
   session_counters sid (ingest L c st) = [(if is_view c then p + 1 else p, if is_view c then l else l + 1)]"
  by (cases c)
    (simp_all add: trackProfileView_def trackLinkClick_def Let_def
      session_counters_updateSession_old)

lemma session_counters_fold_old:
  "\<forall>c \<in> set calls. call_sessionId c = Some sid \<Longrightarrow> sid \<noteq> [] \<Longrightarrow>
   session_counters sid st = [(p, l)] \<Longrightarrow>
   session_counters sid (fold (ingest L) calls st) =
     [(p + int (length (filter is_view calls)),
       l + int (length (filter (\<lambda>c. \<not> is_view c) calls)))]"
proof (induction calls arbitrary: st p l)
  case Nil
  then show ?case by simp
next
  case (Cons c calls)
  from Cons.prems have c: "call_sessionId c = Some sid" by simp
  have step: "session_counters sid (ingest L c st) =
      [(if is_view c then p + 1 else p, if is_view c then l else l + 1)]"
    by (rule session_counters_ingest_old [OF c Cons.prems(2) Cons.prems(3)])
  from Cons.prems have rest: "\<forall>c \<in> set calls. call_sessionId c = Some sid" by simp
  show ?case
    using Cons.IH [OF rest Cons.prems(2) step] by simp
qed

text \<open>
  C1 (amended). For every sequence of \<open>trackProfileView\<close> and \<open>trackLinkClick\<close> calls
  that all carry the same non-empty \<open>sessionId\<close>, executed one after the other on a store
  that has no Session row for it, there is afterwards exactly one Session row for that
  \<open>sessionId\<close> (none when the sequence is empty); its \<open>pageViews\<close> is the number of
  view calls and its \<open>linkClicks\<close> the number of click calls.
\<close>

theorem session_counts_events:
  assumes "\<forall>c \<in> set calls. call_sessionId c = Some sid" and "sid \<noteq> []"
    and "session_counters sid st = []"
  shows "session_counters sid (fold (ingest L) calls st) =
     (if calls = [] then []
      else [(int (length (filter is_view calls)),
             int (length (filter (\<lambda>c. \<not> is_view c) calls)))])"
proof (cases calls)
  case Nil
  with assms show ?thesis by simp
next
  case (Cons c cs)
  from assms Cons have c: "call_sessionId c = Some sid" by simp
  from assms Cons have rest: "\<forall>c \<in> set cs. call_sessionId c = Some sid" by simp
  have step: "session_counters sid (ingest L c st) =
      [(if is_view c then 1 else 0, if is_view c then 0 else 1)]"
    by (rule session_counters_ingest_new [OF c assms(2) assms(3)])
  show ?thesis
    using session_counters_fold_old [OF rest assms(2) step] Cons by simp
qed

theorem session_counts_events_witness:
  "map call_sessionId [TrackView 1000 ''u1'' (view_of ''P1'' (Some ''S'')),
       TrackClick 2000 ''u2'' (click_of ''P1'' (Some ''S'')),
       TrackView 31000 ''u3'' (view_of ''P1'' (Some ''S''))] = [Some ''S'', Some ''S'', Some ''S''] \<and>
   ''S'' \<noteq> [] \<and> session_counters ''S'' empty_store = [] \<and>
   session_counters ''S'' (fold (ingest no_libs)
      [TrackView 1000 ''u1'' (view_of ''P1'' (Some ''S'')),
       TrackClick 2000 ''u2'' (click_of ''P1'' (Some ''S'')),
       TrackView 31000 ''u3'' (view_of ''P1'' (Some ''S''))] empty_store) = [(2, 1)]"
  using session_counts_events [of "[TrackView 1000 ''u1'' (view_of ''P1'' (Some ''S'')),
       TrackClick 2000 ''u2'' (click_of ''P1'' (Some ''S'')),
       TrackView 31000 ''u3'' (view_of ''P1'' (Some ''S''))]" "''S''" empty_store no_libs]
  by (simp add: view_of_def click_of_def empty_store_def session_counters_def)

text \<open>
  C1 as stated fails for the empty \<open>sessionId\<close>: \<open>data.sessionId || generateSessionId()\<close>
  takes the empty string for an absent identifier, so a view that carries \<open>sessionId = ''\<close>
  is recorded under a fresh identifier and no Session row for \<open>''\<close> exists afterwards.
\<close>

theorem session_counts_empty_sessionId_counterexample:
  "session_counters [] (fold (ingest no_libs)
      [TrackView 1000 ''3f0c7c1e-58a4-4c0e-9d55-0a3a7b1f2c11'' (view_of ''P1'' (Some []))]
      empty_store) = [] \<and>
   session_counters ''3f0c7c1e-58a4-4c0e-9d55-0a3a7b1f2c11'' (fold (ingest no_libs)
      [TrackView 1000 ''3f0c7c1e-58a4-4c0e-9d55-0a3a7b1f2c11'' (view_of ''P1'' (Some []))]
      empty_store) = [(1, 0)]"
  by (simp add: view_of_def empty_store_def trackProfileView_def Let_def session_counters_def
      or_else_def updateSession_def updateDailyStats_def)

section \<open>Rollup idempotence\<close>

lemma upsertAll_apply:
  "upsertAll key row update gs m k = apply_key row update (filter (\<lambda>g. key g = k) gs) (m k)"
proof (induction gs arbitrary: m)
  case Nil
  then show ?case by (simp add: upsertAll_def apply_key_def)
next
  case (Cons g gs)
  have step: "upsertAll key row update (g # gs) m =
      upsertAll key row update gs (upsert (key g) (row g) (update (row g)) m)"
    by (simp add: upsertAll_def)
  show ?case
    unfolding step Cons.IH
    by (simp add: upsert_def apply_key_def split: option.splits)
qed

lemma apply_key_snoc:
  "apply_key row update (gs @ [g]) r =
     Some (case apply_key row update gs r of None \<Rightarrow> row g | Some x \<Rightarrow> update (row g) x)"
  by (simp add: apply_key_def)

lemma apply_key_Some:
  assumes A: "\<And>a b r. update a (update b r) = update a r"
  shows "gs \<noteq> [] \<Longrightarrow> apply_key row update gs (Some x) = Some (update (row (last gs)) x)"
proof (induction gs arbitrary: x rule: rev_induct)
  case Nil
  then show ?case by simp
next
  case (snoc g gs)
  show ?case
  proof (cases "gs = []")
    case True
    then show ?thesis by (simp add: apply_key_def)
  next
    case False
    with snoc.IH [OF False] show ?thesis
      by (simp add: apply_key_snoc A)
  qed
qed

lemma apply_key_idem:
  assumes A: "\<And>a b r. update a (update b r) = update a r"
    and B: "\<And>a. update a a = a"
  shows "apply_key row update gs (apply_key row update gs r) = apply_key row update gs r"
proof (cases gs rule: rev_cases)
  case Nil
  then show ?thesis by (simp add: apply_key_def)
next
  case (snoc hs g)
  define y where "y = (case apply_key row update hs r of None \<Rightarrow> row g | Some x \<Rightarrow> update (row g) x)"
  have first: "apply_key row update gs r = Some y"
    by (simp add: snoc apply_key_snoc y_def)
  have stable: "update (row g) y = y"
    by (simp add: y_def A B split: option.splits)
  have "apply_key row update gs (Some y) = Some (update (row (last gs)) y)"
    by (rule apply_key_Some [OF A]) (simp add: snoc)
  with stable first show ?thesis
    by (simp add: snoc)
qed

lemma upsertAll_idem:
  assumes A: "\<And>a b r. update a (update b r) = update a r"
    and B: "\<And>a. update a a = a"
  shows "upsertAll key row update gs (upsertAll key row update gs m) = upsertAll key row update gs m"
proof
  fix k
  show "upsertAll key row update gs (upsertAll key row update gs m) k = upsertAll key row update gs m k"
    by (simp add: upsertAll_apply apply_key_idem [OF A B])
qed

lemma dailyUpdate_laws:
  "dailyUpdate a (dailyUpdate b r) = dailyUpdate a r" "dailyUpdate a a = a"
  by (simp_all add: dailyUpdate_def)

lemma linkUpdate_laws:
  "linkUpdate a (linkUpdate b r) = linkUpdate a r" "linkUpdate a a = a"
  by (simp_all add: linkUpdate_def)

lemma geoUpdate_laws:
  "geoUpdate a (geoUpdate b r) = geoUpdate a r" "geoUpdate a a = a"
  by (simp_all add: geoUpdate_def)

lemma deviceUpdate_laws:
  "deviceUpdate a (deviceUpdate b r) = deviceUpdate a r" "deviceUpdate a a = a"
  by (simp_all add: deviceUpdate_def)

lemma referrerUpdate_laws:
  "referrerUpdate a (referrerUpdate b r) = referrerUpdate a r" "referrerUpdate a a = a"
  by (simp_all add: referrerUpdate_def)

lemmas upsertAll_idems =
  upsertAll_idem [of dailyUpdate, OF dailyUpdate_laws]
  upsertAll_idem [of linkUpdate, OF linkUpdate_laws]
  upsertAll_idem [of geoUpdate, OF geoUpdate_laws]
  upsertAll_idem [of deviceUpdate, OF deviceUpdate_laws]
  upsertAll_idem [of referrerUpdate, OF referrerUpdate_laws]

lemma startOfDay_minus_day: "startOfDay (t - dayMs) = startOfDay t - dayMs"
  by (simp add: startOfDay_def)

lemma same_day_yesterday: "today_of a = today_of b \<Longrightarrow> yesterday_of a = yesterday_of b"
  by (simp add: today_of_def yesterday_of_def startOfDay_minus_day)

lemma runAllAggregations_twice:
  assumes "today_of now2 = today_of now1"
  shows "runAllAggregations now2 (runAllAggregations now1 st) = runAllAggregations now1 st"
  by (simp add: runAllAggregations_def aggregateDailyStats_def aggregateLinkStats_def
      aggregateGeoStats_def aggregateDeviceStats_def aggregateReferrerStats_def Let_def
      assms same_day_yesterday [OF assms] upsertAll_idems)



text \<open>
  The run on a store where two groups of views, one per region, fall under one GeoStats
  key, and where the DeviceStats key holds the empty string for a missing browser: the
  row keeps the region of the group that created it and the counts of the last group,
  after one run and after two.
\<close>

lemma region_store_geo_row:
  "map_option (\<lambda>r. (gs_region r, gs_views r, gs_clicks r))
     (geoStats (runAllAggregations 1704190000000 region_store)
        (''P1'', ''US'', ''Springfield'', yesterday_of 1704190000000)) = Some (Some ''IL'', 2, 0) \<and>
   map_option (\<lambda>r. (gs_region r, gs_views r, gs_clicks r))
     (geoStats (runAllAggregations 1704193600000 (runAllAggregations 1704190000000 region_store))
        (''P1'', ''US'', ''Springfield'', yesterday_of 1704190000000)) = Some (Some ''IL'', 2, 0)"
  by code_simp

lemma region_store_device_row:
  "map_option (\<lambda>r. (dv_browser r, dv_os r, dv_views r))
     (deviceStats (runAllAggregations 1704190000000 region_store)
        (''P1'', ''desktop'', [], [], yesterday_of 1704190000000)) = Some (None, None, 3)"
  by code_simp

section \<open>Scenario 3: the daily rollup of ten views and three clicks\<close>

lemma filter_eq_distinct: "distinct xs \<Longrightarrow> x \<in> set xs \<Longrightarrow> filter (\<lambda>g. g = x) xs = [x]"
  by (induction xs) (auto simp: filter_empty_conv)

lemma dailyStats_runAllAggregations:
  "dailyStats (runAllAggregations now st) = dailyStats (aggregateDailyStats now st)"
  by (simp add: runAllAggregations_def aggregateLinkStats_def aggregateGeoStats_def
      aggregateDeviceStats_def aggregateReferrerStats_def Let_def)

lemma daily_fields_dailyUpdate: "daily_fields (dailyUpdate new r) = daily_fields new"
  by (simp add: daily_fields_def dailyUpdate_def)

lemma dailyStats_aggregateDailyStats:
  assumes "pid \<in> set (activeProfiles (yesterday_of now) (today_of now) (profileViews st))"
  shows "map_option daily_fields (dailyStats (aggregateDailyStats now st) (pid, yesterday_of now)) =
     Some (daily_fields (dailyRow (yesterday_of now) (today_of now) (profileViews st)
        (linkClicks st) (sessions st) pid))"
proof -
  have "filter (\<lambda>g. g = pid) (activeProfiles (yesterday_of now) (today_of now) (profileViews st)) = [pid]"
    using assms by (intro filter_eq_distinct) (simp_all add: activeProfiles_def)
  then show ?thesis
    by (simp add: aggregateDailyStats_def Let_def upsertAll_apply apply_key_def
        daily_fields_dailyUpdate split: option.splits)
qed

lemma uniqueSessions_remdups:
  "uniqueSessions rows = int (length (remdups (filter (\<lambda>x. x \<noteq> None) (map pv_sessionId rows))))"
  by (simp add: uniqueSessions_def groupBy_def filter_map comp_def)

lemma remdups_replicate: "remdups (replicate (Suc n) x) = [x]"
  by (induction n) auto

lemma scenario3_daily_fields:
  assumes "scenario3 now st"
  shows "map_option daily_fields (dailyStats (runAllAggregations now st) (''P1'', yesterday_of now)) =
     Some (10, 1, 3, 1, 2, Some 0)"
proof -
  define vs where "vs = filter (\<lambda>v. pv_profileId v = ''P1'' \<and> in_day (yesterday_of now) (today_of now) v) (profileViews st)"
  define cs where "cs = filter (\<lambda>c. pv_profileId c = ''P1'' \<and> in_day (yesterday_of now) (today_of now) c) (linkClicks st)"
  define ds where "ds = filter (\<lambda>s. s_profileId s = ''P1'' \<and> yesterday_of now \<le> s_startTime s
                  \<and> s_startTime s < today_of now) (sessions st)"
  from assms have vs: "map pv_sessionId vs = replicate 10 (Some ''S1'')"
    and cs: "map pv_sessionId cs = replicate 3 (Some ''S2'')"
    and ds: "map (\<lambda>s. (s_sessionId s, s_pageViews s, s_linkClicks s)) ds = [(''S1'', 10, 0), (''S2'', 0, 3)]
       \<or> map (\<lambda>s. (s_sessionId s, s_pageViews s, s_linkClicks s)) ds = [(''S2'', 0, 3), (''S1'', 10, 0)]"
    by (simp_all add: scenario3_def Let_def vs_def cs_def ds_def)
  have lv: "length vs = 10" using arg_cong [OF vs, of length] by simp
  have lc: "length cs = 3" using arg_cong [OF cs, of length] by simp
  have uv: "uniqueSessions vs = 1"
    by (simp add: uniqueSessions_remdups vs numeral_nat remdups_replicate del: replicate.simps)
  have uc: "uniqueSessions cs = 1"
    by (simp add: uniqueSessions_remdups cs numeral_nat remdups_replicate del: replicate.simps)
  from ds have lds: "length ds = 2" and single: "filter (\<lambda>s. s_pageViews s = 1) ds = []"
    by (auto simp: map_eq_Cons_conv)
  from lv have "vs \<noteq> []" by auto
  then obtain v where "v \<in> set vs" by (cases vs) auto
  then have active: "''P1'' \<in> set (activeProfiles (yesterday_of now) (today_of now) (profileViews st))"
    by (force simp: activeProfiles_def vs_def)
  have "daily_fields (dailyRow (yesterday_of now) (today_of now) (profileViews st)
        (linkClicks st) (sessions st) ''P1'') = (10, 1, 3, 1, 2, Some 0)"
    unfolding dailyRow_def Let_def daily_fields_def
    unfolding vs_def [symmetric] cs_def [symmetric] ds_def [symmetric]
    by (simp add: lv lc uv uc lds single)
  then show ?thesis
    by (simp add: dailyStats_runAllAggregations dailyStats_aggregateDailyStats [OF active])
qed

lemma scenario3_scenario_store: "scenario3 1704190000000 scenario_store"
  by code_simp

text \<open>
  C3 (amended). From raw tables that hold, for profile \<open>P1\<close> on the closed day, exactly
  ten views all under session \<open>S1\<close> and three clicks all under session \<open>S2\<close>, with the
  two Session rows as Ingest keeps them (\<open>S1\<close> with ten page views, \<open>S2\<close> with none),
  the Aggregator yields DailyStats(P1, yesterday) with views 10, uniqueViews 1, clicks 3,
  uniqueClicks 1, sessions 2 and bounceRate 0, after the first run and after the second.
\<close>

theorem aggregator_scenario_daily_stats:
  assumes "scenario3 now st" and "today_of now' = today_of now"
  shows "map_option daily_fields (dailyStats (runAllAggregations now st) (''P1'', yesterday_of now)) =
       Some (10, 1, 3, 1, 2, Some 0) \<and>
     map_option daily_fields
       (dailyStats (runAllAggregations now' (runAllAggregations now st)) (''P1'', yesterday_of now)) =
       Some (10, 1, 3, 1, 2, Some 0)"
  by (simp add: runAllAggregations_twice [OF assms(2)] scenario3_daily_fields [OF assms(1)])

theorem aggregator_scenario_daily_stats_witness:
  "scenario3 1704190000000 scenario_store \<and> today_of 1704193600000 = today_of 1704190000000 \<and>
   map_option daily_fields (dailyStats (runAllAggregations 1704190000000 scenario_store)
       (''P1'', yesterday_of 1704190000000)) = Some (10, 1, 3, 1, 2, Some 0) \<and>
   map_option daily_fields (dailyStats (runAllAggregations 1704193600000
       (runAllAggregations 1704190000000 scenario_store)) (''P1'', yesterday_of 1704190000000)) =
     Some (10, 1, 3, 1, 2, Some 0)"
proof -
  have same: "today_of 1704193600000 = today_of 1704190000000"
    by (simp add: today_of_def startOfDay_def dayMs_def)
  show ?thesis
    using aggregator_scenario_daily_stats [OF scenario3_scenario_store same]
      scenario3_scenario_store same by simp
qed

text \<open>
  C3 as stated fails: on the store Ingest builds for the scenario neither session has
  exactly one page view, so the bounce rate is 0 and not 50.
\<close>

theorem aggregator_scenario_bounce_rate_counterexample:
  "scenario3 1704190000000 scenario_store \<and>
   map_option daily_fields (dailyStats (runAllAggregations 1704190000000 scenario_store)
       (''P1'', yesterday_of 1704190000000)) \<noteq> Some (10, 1, 3, 1, 2, Some 50)"
  by (simp add: scenario3_scenario_store scenario3_daily_fields [OF scenario3_scenario_store])

section \<open>Batch ingest\<close>

lemma batchTrackViews_frame:
  "sessions (batchTrackViews L now views st) = sessions st \<and>
   dailyStats (batchTrackViews L now views st) = dailyStats st"
  by (simp add: batchTrackViews_def)

lemma length_processViews: "length (processViews L now i views) = length views"
  by (induction views arbitrary: i) auto

lemma batchTrackViews_rows:
  "length (profileViews (batchTrackViews L now views st)) = length (profileViews st) + length views"
  by (simp add: batchTrackViews_def length_processViews)

text \<open>
  C4. \<open>batchTrackViews\<close> inserts the ProfileView row of the event and nothing else: on the
  empty store, a batch of one view under session \<open>S\<close> leaves no Session row and no
  DailyStats row, where \<open>trackProfileView\<close> on the same event creates the session with one
  page view and counts one view for the day.
\<close>

theorem batchTrackViews_skips_session_and_daily_stats:
  "length (profileViews (batchTrackViews no_libs 1704100000000
      [(''66666666-6666-4666-8666-666666666666'', view_of ''P1'' (Some ''S''))] empty_store)) = 1 \<and>
   session_counters ''S'' (batchTrackViews no_libs 1704100000000
      [(''66666666-6666-4666-8666-666666666666'', view_of ''P1'' (Some ''S''))] empty_store) = [] \<and>
   dailyStats (batchTrackViews no_libs 1704100000000
      [(''66666666-6666-4666-8666-666666666666'', view_of ''P1'' (Some ''S''))] empty_store)
      (''P1'', startOfDay 1704100000000) = None \<and>
   session_counters ''S'' (snd (trackProfileView no_libs 1704100000000
      ''66666666-6666-4666-8666-666666666666'' (view_of ''P1'' (Some ''S'')) empty_store)) = [(1, 0)] \<and>
   map_option ds_views (dailyStats (snd (trackProfileView no_libs 1704100000000
      ''66666666-6666-4666-8666-666666666666'' (view_of ''P1'' (Some ''S'')) empty_store))
      (''P1'', startOfDay 1704100000000)) = Some 1"
  by (simp add: batchTrackViews_def session_counters_def empty_store_def view_of_def
      trackProfileView_def Let_def or_else_def updateSession_def updateDailyStats_def)

section \<open>Real-time analytics\<close>



lemma recent_rows_window:
  assumes "\<forall>r \<in> set rows. pv_timestamp r \<le> now"
  shows "filter (\<lambda>r. pv_profileId r = pid \<and> now - 60000 \<le> pv_timestamp r) rows =
     filter (\<lambda>r. pv_profileId r = pid \<and> now - 60000 \<le> pv_timestamp r \<and> pv_timestamp r \<le> now) rows"
  using assms by (intro filter_cong) auto

section \<open>Time series\<close>

lemma getDateFormat_table:
  "getDateFormat Hour = ''YYYY-MM-DD HH:00'' \<and> getDateFormat Day = ''YYYY-MM-DD'' \<and>
   getDateFormat Week = ''YYYY-[W]WW'' \<and> getDateFormat Month = ''YYYY-MM''"
  by (simp add: getDateFormat_def)


section \<open>The report cache\<close>

lemma getProfileAnalytics_read_failure:
  assumes "get_fails c" and "\<not> set_fails c" and "0 \<le> ttl"
  shows "fst (getProfileAnalytics h ttl now pid tr st c) = Inr (generateAnalytics h pid tr st)"
  using assms by (simp add: getProfileAnalytics_def cache_get_def cache_set_def Let_def)

lemma getProfileAnalytics_write_failure:
  assumes "cache_get now (cacheKey pid tr) c = None" and "set_fails c"
  shows "getProfileAnalytics h ttl now pid tr st c = (Inl RedisError, c)"
  using assms by (simp add: getProfileAnalytics_def cache_set_def Let_def)





section \<open>The profile existence probe\<close>




section \<open>Referrer classification\<close>












end
